theory Spec2Isabelle
  imports Main
begin

section \<open>SpeechSense: the authentication and token lifecycle\<close>

text \<open>
  A shallow embedding of \<^verbatim>\<open>app/auth/utils.py\<close>, \<^verbatim>\<open>app/auth/dependencies.py\<close>,
  \<^verbatim>\<open>app/auth/router.py\<close>, the three tables of \<^verbatim>\<open>app/models.py\<close> that these use, and
  the session dependency \<^verbatim>\<open>get_db\<close> of \<^verbatim>\<open>app/database.py\<close>.

  Every handler is a function from the SQLAlchemy session to a result and the session it
  leaves behind. An exception is a value \<open>Inl e\<close>. Whatever the Python draws from outside
  the program (the clock, the random generators, the process environment, the bcrypt and
  JWT libraries) is a field of the record \<open>env\<close>.
\<close>

subsection \<open>Exceptions\<close>

datatype error =
    HTTPException nat string
  | IntegrityError
  | MultipleResultsFound
  | UnknownHashError
  | MalformedHashError
  | ValidationError

subsection \<open>Tables (app/models.py)\<close>

text \<open>
  A \<^verbatim>\<open>DateTime\<close> is a number of microseconds. The columns that no authentication flow
  reads or writes (\<^verbatim>\<open>profile_image_url\<close>, \<^verbatim>\<open>is_email_verified\<close>, \<^verbatim>\<open>created_at\<close>,
  \<^verbatim>\<open>updated_at\<close>) are left out. \<^verbatim>\<open>first_name\<close> and \<^verbatim>\<open>last_name\<close> are nullable.
\<close>

type_synonym datetime = int

record user =
  u_id :: string
  u_email :: string
  u_password :: string
  u_first_name :: "string option"
  u_last_name :: "string option"
  u_account_type :: string

record auth_token =
  at_id :: string
  at_user_id :: string
  at_token :: string
  at_type :: string
  at_expires_at :: datetime

record password_reset_token =
  prt_id :: nat
  prt_user_id :: string
  prt_token :: string
  prt_expires_at :: datetime
  prt_used :: bool

record database =
  users :: "user list"
  auth_tokens :: "auth_token list"
  password_reset_tokens :: "password_reset_token list"

text \<open>
  The declared constraints: the primary keys, \<^verbatim>\<open>unique=True\<close> on \<^verbatim>\<open>users.email\<close>,
  \<^verbatim>\<open>auth_tokens.token\<close> and \<^verbatim>\<open>password_reset_tokens.token\<close>, and the two foreign keys to
  \<^verbatim>\<open>users.id\<close>.
\<close>

definition constraints :: "database \<Rightarrow> bool" where
  "constraints d \<longleftrightarrow>
     distinct (map u_id (users d)) \<and>
     distinct (map u_email (users d)) \<and>
     distinct (map at_id (auth_tokens d)) \<and>
     distinct (map at_token (auth_tokens d)) \<and>
     distinct (map prt_id (password_reset_tokens d)) \<and>
     distinct (map prt_token (password_reset_tokens d)) \<and>
     list_all (\<lambda>t. at_user_id t \<in> set (map u_id (users d))) (auth_tokens d) \<and>
     list_all (\<lambda>t. prt_user_id t \<in> set (map u_id (users d))) (password_reset_tokens d)"

subsection \<open>The session (app/database.py)\<close>

text \<open>
  \<open>committed\<close> is what the database holds; \<open>pending\<close> is what the open transaction sees.
  \<^verbatim>\<open>commit\<close> of a transaction that changed nothing does nothing; otherwise it raises when
  the transaction breaks a constraint. \<^verbatim>\<open>rollback\<close> drops the transaction.
\<close>

record session =
  committed :: database
  pending :: database

definition begin_session :: "database \<Rightarrow> session" where
  "begin_session d = \<lparr>committed = d, pending = d\<rparr>"

definition commit :: "session \<Rightarrow> (error + unit) \<times> session" where
  "commit s =
     (if pending s = committed s then (Inr (), s)
      else if constraints (pending s) then (Inr (), s\<lparr>committed := pending s\<rparr>)
      else (Inl IntegrityError, s))"

definition rollback :: "session \<Rightarrow> session" where
  "rollback s = s\<lparr>pending := committed s\<rparr>"

text \<open>
  \<^verbatim>\<open>
  async def get_db():
      async with async_session() as session:
          try:
              yield session
              await session.commit()
          except Exception:
              await session.rollback()
              raise
          finally:
              await session.close()
  \<close>
  The value is the handler's result and the database after the request.
\<close>

definition get_db ::
  "(session \<Rightarrow> (error + 'a) \<times> session) \<Rightarrow> database \<Rightarrow> (error + 'a) \<times> database" where
  "get_db handler d =
     (case handler (begin_session d) of
        (Inl e, s) \<Rightarrow> (Inl e, committed (rollback s))
      | (Inr v, s) \<Rightarrow>
          (case commit s of
             (Inl e, s') \<Rightarrow> (Inl e, committed (rollback s'))
           | (Inr _, s') \<Rightarrow> (Inr v, committed s')))"

text \<open>\<^verbatim>\<open>Result.scalar_one_or_none()\<close>: no row, the one row, or an exception on several.\<close>

fun scalar_one_or_none :: "'a list \<Rightarrow> error + 'a option" where
  "scalar_one_or_none [] = Inr None"
| "scalar_one_or_none [x] = Inr (Some x)"
| "scalar_one_or_none (x # y # zs) = Inl MultipleResultsFound"

subsection \<open>The environment of one request\<close>

datatype jwt_outcome =
    Decoded "string \<rightharpoonup> string"
  | JWTError
  | ExpiredSignatureError

text \<open>
  \<open>utcnow k\<close>, \<open>uuid4 k\<close> and \<open>token_urlsafe k\<close> are the values of the k-th call of
  \<^verbatim>\<open>datetime.utcnow()\<close>, \<^verbatim>\<open>uuid.uuid4()\<close> and \<^verbatim>\<open>secrets.token_urlsafe(32)\<close> in the request;
  \<open>serial\<close> is the id the database gives the next row of \<^verbatim>\<open>password_reset_tokens\<close>;
  \<open>node_env\<close> is \<^verbatim>\<open>os.getenv("NODE_ENV")\<close>. \<open>bcrypt_hash\<close> and \<open>bcrypt_verify\<close> are the bcrypt
  handler of passlib (with the salt it draws), \<open>jwt_encode\<close> and \<open>jwt_decode\<close> are
  \<^verbatim>\<open>jose.jwt\<close> under \<^verbatim>\<open>SECRET_KEY\<close> and \<^verbatim>\<open>ALGORITHM\<close>; \<open>jwt_decode\<close> checks the signature and
  the \<^verbatim>\<open>exp\<close> claim and raises \<^verbatim>\<open>JWTError\<close> or its subclass \<^verbatim>\<open>ExpiredSignatureError\<close>.
\<close>

record env =
  utcnow :: "nat \<Rightarrow> datetime"
  uuid4 :: "nat \<Rightarrow> string"
  token_urlsafe :: "nat \<Rightarrow> string"
  serial :: nat
  node_env :: "string option"
  bcrypt_hash :: "string \<Rightarrow> string"
  bcrypt_verify :: "string \<Rightarrow> string \<Rightarrow> error + bool"
  jwt_encode :: "(string \<rightharpoonup> string) \<Rightarrow> datetime \<Rightarrow> string"
  jwt_decode :: "string \<Rightarrow> jwt_outcome"

subsection \<open>app/auth/utils.py\<close>

definition timedelta_minutes :: "int \<Rightarrow> int" where
  "timedelta_minutes m = m * 60000000"

definition ACCESS_TOKEN_EXPIRE_MINUTES :: int where
  "ACCESS_TOKEN_EXPIRE_MINUTES = 60 * 24 * 7"

text \<open>
  \<^verbatim>\<open>pwd_context = CryptContext(schemes=["bcrypt"], deprecated="auto")\<close>. passlib is not part
  of the repository. \<^verbatim>\<open>CryptContext.verify\<close> first identifies the scheme of the hash, by the
  identifiers a bcrypt hash begins with, raises \<^verbatim>\<open>UnknownHashError\<close> when no configured
  scheme matches, and hands the hash to the scheme's handler otherwise.
\<close>

definition bcrypt_identify :: "string \<Rightarrow> bool" where
  "bcrypt_identify h \<longleftrightarrow>
     list_ex (\<lambda>ident. take (length ident) h = ident)
       [''$2$'', ''$2a$'', ''$2x$'', ''$2y$'', ''$2b$'']"

definition pwd_context_verify :: "env \<Rightarrow> string \<Rightarrow> string \<Rightarrow> error + bool" where
  "pwd_context_verify e secret h =
     (if bcrypt_identify h then bcrypt_verify e secret h else Inl UnknownHashError)"

definition hash_password :: "env \<Rightarrow> string \<Rightarrow> string" where
  "hash_password e password = bcrypt_hash e password"

definition verify_password :: "env \<Rightarrow> string \<Rightarrow> string \<Rightarrow> error + bool" where
  "verify_password e plain_password hashed_password =
     pwd_context_verify e plain_password hashed_password"

text \<open>\<open>k\<close> is the index of the clock reading that the call makes.\<close>

definition create_access_token :: "env \<Rightarrow> nat \<Rightarrow> (string \<rightharpoonup> string) \<Rightarrow> string" where
  "create_access_token e k data =
     jwt_encode e data (utcnow e k + timedelta_minutes ACCESS_TOKEN_EXPIRE_MINUTES)"

definition create_refresh_token :: "env \<Rightarrow> nat \<Rightarrow> string" where
  "create_refresh_token e k = token_urlsafe e k"

definition create_reset_token :: "env \<Rightarrow> nat \<Rightarrow> string" where
  "create_reset_token e k = token_urlsafe e k"

definition verify_token :: "env \<Rightarrow> string \<Rightarrow> (string \<rightharpoonup> string) option" where
  "verify_token e token =
     (case jwt_decode e token of
        Decoded payload \<Rightarrow> Some payload
      | JWTError \<Rightarrow> None
      | ExpiredSignatureError \<Rightarrow> None)"

definition get_token_expiry :: "env \<Rightarrow> nat \<Rightarrow> int \<Rightarrow> datetime" where
  "get_token_expiry e k minutes = utcnow e k + timedelta_minutes minutes"

definition generate_user_id :: "env \<Rightarrow> nat \<Rightarrow> string" where
  "generate_user_id e k = uuid4 e k"

subsection \<open>app/auth/dependencies.py\<close>

definition credentials_exception :: error where
  "credentials_exception = HTTPException 401 ''Could not validate credentials''"

text \<open>\<^verbatim>\<open>get_current_user\<close> only reads, so it returns no session.\<close>

definition get_current_user :: "env \<Rightarrow> string \<Rightarrow> session \<Rightarrow> error + user" where
  "get_current_user e credentials s =
     (case verify_token e credentials of
        None \<Rightarrow> Inl credentials_exception
      | Some payload \<Rightarrow>
          (case payload ''sub'' of
             None \<Rightarrow> Inl credentials_exception
           | Some user_id \<Rightarrow>
               (case scalar_one_or_none (filter (\<lambda>u. u_id u = user_id) (users (pending s))) of
                  Inl x \<Rightarrow> Inl x
                | Inr None \<Rightarrow> Inl credentials_exception
                | Inr (Some u) \<Rightarrow> Inr u)))"

text \<open>\<open>k\<close> is the index of the clock reading of the expiry test.\<close>

definition get_refresh_token_user ::
  "env \<Rightarrow> nat \<Rightarrow> string option \<Rightarrow> session \<Rightarrow> (error + user) \<times> session" where
  "get_refresh_token_user e k refresh_token s =
     (if refresh_token = None \<or> refresh_token = Some [] then
        (Inl (HTTPException 401 ''Refresh token not provided''), s)
      else
        (case scalar_one_or_none
                (filter (\<lambda>t. Some (at_token t) = refresh_token) (auth_tokens (pending s))) of
           Inl x \<Rightarrow> (Inl x, s)
         | Inr None \<Rightarrow> (Inl (HTTPException 401 ''Invalid refresh token''), s)
         | Inr (Some tok) \<Rightarrow>
             (if at_expires_at tok < utcnow e k then
                (let s1 = s\<lparr>pending := (pending s)\<lparr>auth_tokens :=
                             filter (\<lambda>t. at_id t \<noteq> at_id tok) (auth_tokens (pending s))\<rparr>\<rparr>
                 in case commit s1 of
                      (Inl x, s2) \<Rightarrow> (Inl x, s2)
                    | (Inr _, s2) \<Rightarrow> (Inl (HTTPException 401 ''Refresh token expired''), s2))
              else
                (case scalar_one_or_none
                        (filter (\<lambda>u. u_id u = at_user_id tok) (users (pending s))) of
                   Inl x \<Rightarrow> (Inl x, s)
                 | Inr None \<Rightarrow> (Inl (HTTPException 401 ''User not found''), s)
                 | Inr (Some u) \<Rightarrow> (Inr u, s)))))"

subsection \<open>app/auth/schemas.py\<close>

text \<open>
  The request bodies reach a handler after pydantic has validated them. A response model
  is built by the handler; \<^verbatim>\<open>UserResponse.model_validate\<close> raises when a required string
  is \<^verbatim>\<open>None\<close>.
\<close>

datatype AccountTypeEnum = PATIENT | THERAPIST

fun account_type_value :: "AccountTypeEnum \<Rightarrow> string" where
  "account_type_value PATIENT = ''patient''"
| "account_type_value THERAPIST = ''therapist''"

record UserRegister =
  reg_email :: string
  reg_password :: string
  reg_confirm_password :: string
  reg_first_name :: string
  reg_last_name :: string
  reg_account_type :: AccountTypeEnum

record UserLogin =
  login_email :: string
  login_password :: string

record ResetPassword =
  reset_token :: string
  reset_password_new :: string
  reset_confirm_password :: string

record UserResponse =
  resp_id :: string
  resp_email :: string
  resp_first_name :: string
  resp_last_name :: string
  resp_account_type :: string

record AuthResponse =
  auth_message :: string
  auth_user :: UserResponse
  auth_access_token :: string

record cookie =
  cookie_key :: string
  cookie_value :: string
  cookie_max_age :: int
  cookie_httponly :: bool
  cookie_secure :: bool
  cookie_samesite :: string

record ForgotPasswordResponse =
  fp_message :: string
  fp_reset_token :: "string option"

record TokenVerificationResponse =
  tv_valid :: bool
  tv_message :: string

record RefreshTokenResponse =
  rf_access_token :: string
  rf_message :: string

definition model_validate :: "user \<Rightarrow> error + UserResponse" where
  "model_validate u =
     (case (u_first_name u, u_last_name u) of
        (Some f, Some l) \<Rightarrow>
          Inr \<lparr>resp_id = u_id u, resp_email = u_email u, resp_first_name = f,
               resp_last_name = l, resp_account_type = u_account_type u\<rparr>
      | _ \<Rightarrow> Inl ValidationError)"

subsection \<open>app/auth/router.py\<close>

text \<open>\<^verbatim>\<open>db.add\<close>, the bulk \<^verbatim>\<open>delete(...).where(...)\<close> and \<^verbatim>\<open>db.delete\<close> on the open transaction.\<close>

definition add_user :: "user \<Rightarrow> session \<Rightarrow> session" where
  "add_user u s = s\<lparr>pending := (pending s)\<lparr>users := users (pending s) @ [u]\<rparr>\<rparr>"

definition add_auth_token :: "auth_token \<Rightarrow> session \<Rightarrow> session" where
  "add_auth_token t s = s\<lparr>pending := (pending s)\<lparr>auth_tokens := auth_tokens (pending s) @ [t]\<rparr>\<rparr>"

definition add_password_reset_token :: "password_reset_token \<Rightarrow> session \<Rightarrow> session" where
  "add_password_reset_token t s =
     s\<lparr>pending := (pending s)\<lparr>password_reset_tokens := password_reset_tokens (pending s) @ [t]\<rparr>\<rparr>"

definition delete_auth_tokens_of :: "string \<Rightarrow> session \<Rightarrow> session" where
  "delete_auth_tokens_of uid s =
     s\<lparr>pending := (pending s)\<lparr>auth_tokens :=
          filter (\<lambda>t. at_user_id t \<noteq> uid) (auth_tokens (pending s))\<rparr>\<rparr>"

definition delete_password_reset_tokens_of :: "string \<Rightarrow> session \<Rightarrow> session" where
  "delete_password_reset_tokens_of uid s =
     s\<lparr>pending := (pending s)\<lparr>password_reset_tokens :=
          filter (\<lambda>t. prt_user_id t \<noteq> uid) (password_reset_tokens (pending s))\<rparr>\<rparr>"

definition delete_password_reset_token :: "password_reset_token \<Rightarrow> session \<Rightarrow> session" where
  "delete_password_reset_token tok s =
     s\<lparr>pending := (pending s)\<lparr>password_reset_tokens :=
          filter (\<lambda>t. prt_id t \<noteq> prt_id tok) (password_reset_tokens (pending s))\<rparr>\<rparr>"

text \<open>The two attribute assignments of \<^verbatim>\<open>reset_password\<close>, written back by primary key.\<close>

definition set_user_password :: "user \<Rightarrow> string \<Rightarrow> session \<Rightarrow> session" where
  "set_user_password u h s =
     s\<lparr>pending := (pending s)\<lparr>users :=
          map (\<lambda>v. if u_id v = u_id u then v\<lparr>u_password := h\<rparr> else v) (users (pending s))\<rparr>\<rparr>"

definition set_token_used :: "password_reset_token \<Rightarrow> session \<Rightarrow> session" where
  "set_token_used tok s =
     s\<lparr>pending := (pending s)\<lparr>password_reset_tokens :=
          map (\<lambda>t. if prt_id t = prt_id tok then t\<lparr>prt_used := True\<rparr> else t)
            (password_reset_tokens (pending s))\<rparr>\<rparr>"

definition new_refresh_record :: "env \<Rightarrow> nat \<Rightarrow> nat \<Rightarrow> string \<Rightarrow> string \<Rightarrow> auth_token" where
  "new_refresh_record e i k uid refresh_token =
     \<lparr>at_id = generate_user_id e i, at_user_id = uid, at_token = refresh_token,
      at_type = ''refresh'', at_expires_at = get_token_expiry e k (60 * 24 * 30)\<rparr>"

definition register_user :: "env \<Rightarrow> UserRegister \<Rightarrow> session \<Rightarrow> (error + AuthResponse) \<times> session" where
  "register_user e user_data s =
     (case scalar_one_or_none (filter (\<lambda>u. u_email u = reg_email user_data) (users (pending s))) of
        Inl x \<Rightarrow> (Inl x, s)
      | Inr (Some existing_user) \<Rightarrow> (Inl (HTTPException 400 ''Email address already registered''), s)
      | Inr None \<Rightarrow>
          (let hashed_password = hash_password e (reg_password user_data);
               db_user = \<lparr>u_id = generate_user_id e 0, u_email = reg_email user_data,
                          u_password = hashed_password,
                          u_first_name = Some (reg_first_name user_data),
                          u_last_name = Some (reg_last_name user_data),
                          u_account_type = account_type_value (reg_account_type user_data)\<rparr>
           in case commit (add_user db_user s) of
                (Inl x, s1) \<Rightarrow> (Inl x, s1)
              | (Inr _, s1) \<Rightarrow>
                  (let access_token = create_access_token e 0 [''sub'' \<mapsto> u_id db_user];
                       refresh_token = create_refresh_token e 0;
                       auth_token = new_refresh_record e 1 1 (u_id db_user) refresh_token
                   in case commit (add_auth_token auth_token s1) of
                        (Inl x, s2) \<Rightarrow> (Inl x, s2)
                      | (Inr _, s2) \<Rightarrow>
                          (case model_validate db_user of
                             Inl x \<Rightarrow> (Inl x, s2)
                           | Inr ur \<Rightarrow>
                               (Inr \<lparr>auth_message = ''User registered successfully'',
                                     auth_user = ur, auth_access_token = access_token\<rparr>, s2)))))"

definition login_cookie :: "env \<Rightarrow> string \<Rightarrow> cookie" where
  "login_cookie e refresh_token =
     \<lparr>cookie_key = ''refresh_token'', cookie_value = refresh_token,
      cookie_max_age = 60 * 60 * 24 * 30, cookie_httponly = True,
      cookie_secure = (node_env e = Some ''production''), cookie_samesite = ''lax''\<rparr>"

definition login_user ::
  "env \<Rightarrow> UserLogin \<Rightarrow> session \<Rightarrow> (error + AuthResponse \<times> cookie) \<times> session" where
  "login_user e user_credentials s =
     (case scalar_one_or_none
             (filter (\<lambda>u. u_email u = login_email user_credentials) (users (pending s))) of
        Inl x \<Rightarrow> (Inl x, s)
      | Inr None \<Rightarrow> (Inl (HTTPException 401 ''Invalid email or password''), s)
      | Inr (Some u) \<Rightarrow>
          (case verify_password e (login_password user_credentials) (u_password u) of
             Inl x \<Rightarrow> (Inl x, s)
           | Inr False \<Rightarrow> (Inl (HTTPException 401 ''Invalid email or password''), s)
           | Inr True \<Rightarrow>
               (let access_token = create_access_token e 0 [''sub'' \<mapsto> u_id u];
                    refresh_token = create_refresh_token e 0;
                    auth_token = new_refresh_record e 0 1 (u_id u) refresh_token
                in case commit (add_auth_token auth_token s) of
                     (Inl x, s1) \<Rightarrow> (Inl x, s1)
                   | (Inr _, s1) \<Rightarrow>
                       (case model_validate u of
                          Inl x \<Rightarrow> (Inl x, s1)
                        | Inr ur \<Rightarrow>
                            (Inr (\<lparr>auth_message = ''Login successful'', auth_user = ur,
                                   auth_access_token = access_token\<rparr>,
                                  login_cookie e refresh_token), s1)))))"

text \<open>
  FastAPI resolves the dependencies of \<^verbatim>\<open>logout_user\<close> in the order of its parameters:
  \<^verbatim>\<open>get_current_user\<close>, then \<^verbatim>\<open>get_refresh_token_user\<close>, on the one session of the request.
\<close>

definition logout_user ::
  "env \<Rightarrow> string \<Rightarrow> string option \<Rightarrow> session \<Rightarrow> (error + string) \<times> session" where
  "logout_user e credentials refresh_token s =
     (case get_current_user e credentials s of
        Inl x \<Rightarrow> (Inl x, s)
      | Inr current_user \<Rightarrow>
          (case get_refresh_token_user e 0 refresh_token s of
             (Inl x, s1) \<Rightarrow> (Inl x, s1)
           | (Inr refresh_token_user, s1) \<Rightarrow>
               (case commit (delete_auth_tokens_of (u_id current_user) s1) of
                  (Inl x, s2) \<Rightarrow> (Inl x, s2)
                | (Inr _, s2) \<Rightarrow> (Inr ''Logout successful'', s2))))"

definition refresh_access_token ::
  "env \<Rightarrow> string option \<Rightarrow> session \<Rightarrow> (error + RefreshTokenResponse) \<times> session" where
  "refresh_access_token e refresh_token s =
     (case get_refresh_token_user e 0 refresh_token s of
        (Inl x, s1) \<Rightarrow> (Inl x, s1)
      | (Inr current_user, s1) \<Rightarrow>
          (Inr \<lparr>rf_access_token = create_access_token e 1 [''sub'' \<mapsto> u_id current_user],
                rf_message = ''Token refreshed successfully''\<rparr>, s1))"

definition success_message :: string where
  "success_message = ''If this email exists, a password reset link has been sent''"

definition forgot_password ::
  "env \<Rightarrow> string \<Rightarrow> session \<Rightarrow> (error + ForgotPasswordResponse) \<times> session" where
  "forgot_password e email s =
     (case scalar_one_or_none (filter (\<lambda>u. u_email u = email) (users (pending s))) of
        Inl x \<Rightarrow> (Inl x, s)
      | Inr None \<Rightarrow> (Inr \<lparr>fp_message = success_message, fp_reset_token = None\<rparr>, s)
      | Inr (Some u) \<Rightarrow>
          (let s1 = delete_password_reset_tokens_of (u_id u) s;
               tok = create_reset_token e 0;
               password_reset = \<lparr>prt_id = serial e, prt_user_id = u_id u, prt_token = tok,
                                 prt_expires_at = get_token_expiry e 0 60, prt_used = False\<rparr>
           in case commit (add_password_reset_token password_reset s1) of
                (Inl x, s2) \<Rightarrow> (Inl x, s2)
              | (Inr _, s2) \<Rightarrow>
                  (Inr \<lparr>fp_message = success_message,
                        fp_reset_token =
                          (if node_env e = Some ''development'' then Some tok else None)\<rparr>, s2)))"

definition find_reset_token :: "string \<Rightarrow> session \<Rightarrow> error + password_reset_token option" where
  "find_reset_token token s =
     scalar_one_or_none
       (filter (\<lambda>t. prt_token t = token \<and> prt_used t = False) (password_reset_tokens (pending s)))"

definition reset_password :: "env \<Rightarrow> ResetPassword \<Rightarrow> session \<Rightarrow> (error + string) \<times> session" where
  "reset_password e reset_data s =
     (case find_reset_token (reset_token reset_data) s of
        Inl x \<Rightarrow> (Inl x, s)
      | Inr None \<Rightarrow> (Inl (HTTPException 400 ''Invalid or expired reset token''), s)
      | Inr (Some tok) \<Rightarrow>
          (if prt_expires_at tok < utcnow e 0 then
             (case commit (delete_password_reset_token tok s) of
                (Inl x, s1) \<Rightarrow> (Inl x, s1)
              | (Inr _, s1) \<Rightarrow> (Inl (HTTPException 400 ''Reset token has expired''), s1))
           else
             (case scalar_one_or_none
                     (filter (\<lambda>u. u_id u = prt_user_id tok) (users (pending s))) of
                Inl x \<Rightarrow> (Inl x, s)
              | Inr None \<Rightarrow> (Inl (HTTPException 400 ''User not found''), s)
              | Inr (Some u) \<Rightarrow>
                  (let s1 = set_user_password u (hash_password e (reset_password_new reset_data)) s;
                       s2 = set_token_used tok s1;
                       s3 = delete_auth_tokens_of (u_id u) s2
                   in case commit s3 of
                        (Inl x, s4) \<Rightarrow> (Inl x, s4)
                      | (Inr _, s4) \<Rightarrow>
                          (Inr ''Password has been reset successfully. Please log in with your new password.'',
                           s4)))))"

definition verify_reset_token ::
  "env \<Rightarrow> string \<Rightarrow> session \<Rightarrow> (error + TokenVerificationResponse) \<times> session" where
  "verify_reset_token e token s =
     (case find_reset_token token s of
        Inl x \<Rightarrow> (Inl x, s)
      | Inr None \<Rightarrow> (Inr \<lparr>tv_valid = False, tv_message = ''Token is invalid or expired''\<rparr>, s)
      | Inr (Some tok) \<Rightarrow>
          (if prt_expires_at tok < utcnow e 0 then
             (Inr \<lparr>tv_valid = False, tv_message = ''Token is invalid or expired''\<rparr>, s)
           else (Inr \<lparr>tv_valid = True, tv_message = ''Token is valid''\<rparr>, s)))"

subsection \<open>A concrete deployment\<close>

text \<open>
  Two users, their tokens, and an environment whose stand-ins for bcrypt and for the JWT
  library are simple enough to evaluate. The general theorems below are applied to them.
\<close>

definition alice :: user where
  "alice = \<lparr>u_id = ''u-alice'', u_email = ''alice@example.org'', u_password = ''$2b$alice-pw'',
            u_first_name = Some ''Alice'', u_last_name = Some ''A'', u_account_type = ''patient''\<rparr>"

definition bob :: user where
  "bob = \<lparr>u_id = ''u-bob'', u_email = ''bob@example.org'', u_password = ''$2b$bob-pw'',
          u_first_name = Some ''Bob'', u_last_name = Some ''B'', u_account_type = ''therapist''\<rparr>"

definition tok_a1 :: auth_token where
  "tok_a1 = \<lparr>at_id = ''t1'', at_user_id = ''u-alice'', at_token = ''tok-a1'',
             at_type = ''refresh'', at_expires_at = 5000\<rparr>"

definition tok_a2 :: auth_token where
  "tok_a2 = \<lparr>at_id = ''t2'', at_user_id = ''u-alice'', at_token = ''tok-a2'',
             at_type = ''refresh'', at_expires_at = 10\<rparr>"

definition tok_b1 :: auth_token where
  "tok_b1 = \<lparr>at_id = ''t3'', at_user_id = ''u-bob'', at_token = ''tok-b1'',
             at_type = ''refresh'', at_expires_at = 5000\<rparr>"

definition rst_a :: password_reset_token where
  "rst_a = \<lparr>prt_id = 1, prt_user_id = ''u-alice'', prt_token = ''rst-a'',
            prt_expires_at = 5000, prt_used = False\<rparr>"

definition rst_b :: password_reset_token where
  "rst_b = \<lparr>prt_id = 2, prt_user_id = ''u-bob'', prt_token = ''rst-b'',
            prt_expires_at = 10, prt_used = False\<rparr>"

definition demo_db :: database where
  "demo_db = \<lparr>users = [alice, bob], auth_tokens = [tok_a1, tok_a2, tok_b1],
              password_reset_tokens = [rst_a, rst_b]\<rparr>"

definition demo_env :: env where
  "demo_env =
     \<lparr>utcnow = (\<lambda>k. 1000 + int k),
      uuid4 = (\<lambda>k. if k = 0 then ''id-0'' else ''id-1''),
      token_urlsafe = (\<lambda>k. ''tok-new''),
      serial = 7,
      node_env = Some ''development'',
      bcrypt_hash = (\<lambda>p. ''$2b$'' @ p),
      bcrypt_verify = (\<lambda>p h. Inr (h = ''$2b$'' @ p)),
      jwt_encode = (\<lambda>data exp. ''jwt:'' @ (case data ''sub'' of None \<Rightarrow> [] | Some x \<Rightarrow> x)),
      jwt_decode = (\<lambda>t. if take 4 t = ''jwt:'' then Decoded [''sub'' \<mapsto> drop 4 t] else JWTError)\<rparr>"

definition carol_reg :: UserRegister where
  "carol_reg = \<lparr>reg_email = ''carol@example.org'', reg_password = ''carol-pw1'',
                reg_confirm_password = ''carol-pw1'', reg_first_name = ''Carol'',
                reg_last_name = ''C'', reg_account_type = PATIENT\<rparr>"

definition carol :: user where
  "carol = \<lparr>u_id = ''id-0'', u_email = ''carol@example.org'', u_password = ''$2b$carol-pw1'',
            u_first_name = Some ''Carol'', u_last_name = Some ''C'', u_account_type = ''patient''\<rparr>"

section \<open>Properties\<close>

subsection \<open>Queries, commits and constraints\<close>

lemma scalar_one_or_none_Some: "scalar_one_or_none xs = Inr (Some x) \<longleftrightarrow> xs = [x]"
  by (cases xs rule: scalar_one_or_none.cases) auto

lemma scalar_one_or_none_None: "scalar_one_or_none xs = Inr None \<longleftrightarrow> xs = []"
  by (cases xs rule: scalar_one_or_none.cases) auto

lemma filter_absent_key: "k \<notin> f ` set xs \<Longrightarrow> filter (\<lambda>y. f y = k) xs = []"
  by (auto simp: filter_empty_conv)

lemma filter_unique_key:
  "distinct (map f xs) \<Longrightarrow> x \<in> set xs \<Longrightarrow> filter (\<lambda>y. f y = f x) xs = [x]"
proof (induction xs)
  case Nil
  then show ?case by simp
next
  case (Cons a xs)
  show ?case
  proof (cases "a = x")
    case True
    with Cons.prems have "f x \<notin> f ` set xs" by simp
    then have "filter (\<lambda>y. f y = f x) xs = []"
      by (rule filter_absent_key)
    with True show ?thesis by simp
  next
    case False
    with Cons.prems have "x \<in> set xs" "f a \<noteq> f x" by auto
    with Cons show ?thesis by simp
  qed
qed


lemma filter_singletonD: "filter P xs = [x] \<Longrightarrow> P x \<and> x \<in> set xs"
proof -
  assume "filter P xs = [x]"
  then have "x \<in> set (filter P xs)" by simp
  then show ?thesis by simp
qed

lemma commit_unchanged: "pending s = committed s \<Longrightarrow> commit s = (Inr (), s)"
  by (simp add: commit_def)

lemma commit_constraints:
  "constraints (pending s) \<Longrightarrow> commit s = (Inr (), s\<lparr>committed := pending s\<rparr>)"
  by (simp add: commit_def)

lemma commit_Inr: "commit s = (Inr v, s') \<Longrightarrow> s' = s\<lparr>committed := pending s\<rparr>"
  by (auto simp: commit_def split: if_splits)

lemma commit_Inl: "commit s = (Inl x, s') \<Longrightarrow> s' = s \<and> x = IntegrityError"
  by (auto simp: commit_def split: if_splits)

lemma constraints_filter_auth_tokens:
  "constraints d \<Longrightarrow> constraints (d\<lparr>auth_tokens := filter P (auth_tokens d)\<rparr>)"
  by (auto simp: constraints_def distinct_map_filter list_all_iff)

lemma constraints_filter_reset_tokens:
  "constraints d \<Longrightarrow> constraints (d\<lparr>password_reset_tokens := filter P (password_reset_tokens d)\<rparr>)"
  by (auto simp: constraints_def distinct_map_filter list_all_iff)

lemma get_current_user_Inr:
  "get_current_user e c s = Inr u \<Longrightarrow>
     \<exists>payload. jwt_decode e c = Decoded payload \<and> payload ''sub'' = Some (u_id u) \<and>
       filter (\<lambda>v. u_id v = u_id u) (users (pending s)) = [u]"
  by (auto simp: get_current_user_def verify_token_def scalar_one_or_none_Some
      split: jwt_outcome.splits option.splits sum.splits dest: filter_singletonD)

lemma get_refresh_token_user_Inr:
  "get_refresh_token_user e k rt s = (Inr u, s') \<Longrightarrow>
     s' = s \<and> (\<exists>tok. rt = Some (at_token tok) \<and> at_token tok \<noteq> [] \<and>
        filter (\<lambda>t. Some (at_token t) = rt) (auth_tokens (pending s)) = [tok] \<and>
        \<not> at_expires_at tok < utcnow e k \<and>
        filter (\<lambda>v. u_id v = at_user_id tok) (users (pending s)) = [u])"
  apply (auto simp: get_refresh_token_user_def scalar_one_or_none_Some Let_def
      split: option.splits sum.splits if_splits prod.splits dest: filter_singletonD)
  done

lemmas demo_defs = demo_db_def demo_env_def alice_def bob_def tok_a1_def tok_a2_def tok_b1_def
  rst_a_def rst_b_def carol_reg_def carol_def

subsection \<open>Access-token verification\<close>

lemma get_current_user_rejects:
  assumes no: "\<not> (\<exists>payload sub. jwt_decode e token = Decoded payload \<and> payload ''sub'' = Some sub \<and>
          sub \<in> u_id ` set (users (pending s)))"
  shows "get_current_user e token s = Inl credentials_exception"
  proof (cases "jwt_decode e token")
    case (Decoded payload)
    show ?thesis
    proof (cases "payload ''sub''")
      case None
      with Decoded show ?thesis by (simp add: get_current_user_def verify_token_def)
    next
      case (Some sub)
      with Decoded no have "sub \<notin> u_id ` set (users (pending s))" by blast
      then have "filter (\<lambda>v. u_id v = sub) (users (pending s)) = []"
        by (rule filter_absent_key)
      with Decoded Some show ?thesis by (simp add: get_current_user_def verify_token_def)
    qed
  qed (simp_all add: get_current_user_def verify_token_def)

text \<open>
  Claim C6. \<^verbatim>\<open>get_current_user\<close> returns a user only when \<^verbatim>\<open>jwt.decode\<close> accepted the token
  (signature and expiry), the payload carries a subject, and that subject is the id of a
  user in the store; the user returned is that one. Whenever the token does not decode to
  a subject that is the id of a stored user, the result is the 401 credentials exception.
\<close>

theorem get_current_user_requires_existing_user:
  "(get_current_user e token s = Inr u \<longrightarrow>
      (\<exists>payload. jwt_decode e token = Decoded payload \<and> payload ''sub'' = Some (u_id u)) \<and>
      u \<in> set (users (pending s))) \<and>
   (\<not> (\<exists>payload sub. jwt_decode e token = Decoded payload \<and> payload ''sub'' = Some sub \<and>
          sub \<in> u_id ` set (users (pending s))) \<longrightarrow>
      get_current_user e token s = Inl credentials_exception)"
proof (intro conjI impI)
  assume ok: "get_current_user e token s = Inr u"
  from get_current_user_Inr [OF ok] obtain payload where
    p: "jwt_decode e token = Decoded payload" "payload ''sub'' = Some (u_id u)"
    and f: "filter (\<lambda>v. u_id v = u_id u) (users (pending s)) = [u]"
    by blast
  from p show "\<exists>payload. jwt_decode e token = Decoded payload \<and> payload ''sub'' = Some (u_id u)"
    by blast
  from filter_singletonD [OF f] show "u \<in> set (users (pending s))"
    by simp
next
  assume "\<not> (\<exists>payload sub. jwt_decode e token = Decoded payload \<and> payload ''sub'' = Some sub \<and>
          sub \<in> u_id ` set (users (pending s)))"
  then show "get_current_user e token s = Inl credentials_exception"
    by (rule get_current_user_rejects)
qed

theorem get_current_user_requires_existing_user_witness:
  "get_current_user demo_env ''jwt:u-alice'' (begin_session demo_db) = Inr alice \<and>
   (\<exists>payload. jwt_decode demo_env ''jwt:u-alice'' = Decoded payload \<and> payload ''sub'' = Some (u_id alice)) \<and>
   alice \<in> set (users (pending (begin_session demo_db))) \<and>
   get_current_user demo_env ''jwt:u-carol'' (begin_session demo_db) = Inl credentials_exception"
proof -
  have a: "get_current_user demo_env ''jwt:u-alice'' (begin_session demo_db) = Inr alice"
    by (simp add: demo_defs begin_session_def get_current_user_def verify_token_def)
  have c: "\<not> (\<exists>payload sub. jwt_decode demo_env ''jwt:u-carol'' = Decoded payload \<and>
             payload ''sub'' = Some sub \<and> sub \<in> u_id ` set (users (pending (begin_session demo_db))))"
    by (simp add: demo_defs begin_session_def)
  from a c
    get_current_user_requires_existing_user
      [of demo_env "''jwt:u-alice''" "begin_session demo_db" alice]
    get_current_user_requires_existing_user
      [of demo_env "''jwt:u-carol''" "begin_session demo_db" alice]
  show ?thesis by blast
qed

end
